theory Spec2Isabelle
  imports Complex_Main "HOL-Library.Monad_Syntax"
begin

section \<open>Stella Cradle Mk-1: the per-frame dynamics of the habitat simulator\<close>

text \<open>
  The simulator is a tree of React components; each one owns a little state and
  registers one \<^verbatim>\<open>useFrame((state, delta) => ...)\<close> callback that the renderer calls
  once per frame. Every callback is embedded here as a function from the component's
  inputs (its props, the frame's \<^verbatim>\<open>delta\<close>, the clock's elapsed time) and its
  state before the frame to its state after the frame.

  Conventions of the embedding:
  \<^item> JavaScript numbers are modelled as real numbers: \<^verbatim>\<open>Math.sqrt\<close>, \<^verbatim>\<open>Math.atan\<close>,
    \<^verbatim>\<open>Math.sin\<close>, \<^verbatim>\<open>Math.min\<close> and \<^verbatim>\<open>Math.PI\<close> are \<open>sqrt\<close>, \<open>arctan\<close>, \<open>sin\<close>,
    \<open>min\<close> and \<open>pi\<close>. Rounding is left out of the dynamics; it is made explicit in
    the telemetry report, where a claim speaks of exact equality.
  \<^item> A value set with a React state setter during a frame is the value the next frame
    reads; inside the frame the callback still sees the value from before the frame.
  \<^item> The \<^verbatim>\<open>ref.current\<close> objects are mounted (not null) when a frame runs.
\<close>

subsection \<open>Constants (first implementation, lines 7--47)\<close>

datatype planet = Earth | Moon | Mars | Space

fun PLANET_DATA_gravity :: "planet \<Rightarrow> real" where
  "PLANET_DATA_gravity Earth = 9.81"
| "PLANET_DATA_gravity Moon = 1.62"
| "PLANET_DATA_gravity Mars = 3.71"
| "PLANET_DATA_gravity Space = 0"

definition GRAVITY_CONSTANTS_earth :: real where
  "GRAVITY_CONSTANTS_earth = 9.81"

definition ARM_LENGTH :: real where
  "ARM_LENGTH = 4"

definition BOX_MASS :: real where
  "BOX_MASS = 50"

definition ANGULAR_DAMPING :: real where
  "ANGULAR_DAMPING = 0.88"

definition GRAVITY_ALIGNMENT_SPEED :: real where
  "GRAVITY_ALIGNMENT_SPEED = 1.5"

definition CENTRIFUGAL_BULGE_FACTOR :: real where
  "CENTRIFUGAL_BULGE_FACTOR = 0.8"

datatype boxType = Cube | Rectangle | Sphere

fun BOX_TYPES_dimensions :: "boxType \<Rightarrow> real \<times> real \<times> real" where
  "BOX_TYPES_dimensions Cube = (1.2, 1.2, 1.2)"
| "BOX_TYPES_dimensions Rectangle = (1.8, 1.2, 1.2)"
| "BOX_TYPES_dimensions Sphere = (1.2, 1.2, 1.2)"

datatype habitatConfig = Single | Dual | Quad | Hexa | Octa

fun HABITAT_CONFIGS_count :: "habitatConfig \<Rightarrow> nat" where
  "HABITAT_CONFIGS_count Single = 1"
| "HABITAT_CONFIGS_count Dual = 2"
| "HABITAT_CONFIGS_count Quad = 4"
| "HABITAT_CONFIGS_count Hexa = 6"
| "HABITAT_CONFIGS_count Octa = 8"

subsection \<open>The hub: \<^verbatim>\<open>MainRotatingMechanism\<close> (lines 120--125)\<close>

text \<open>The state is \<^verbatim>\<open>mechanismRef.current.rotation.y\<close>, the hub angle.\<close>

definition MainRotatingMechanism_frame :: "real \<Rightarrow> bool \<Rightarrow> real \<Rightarrow> real \<Rightarrow> real" where
  "MainRotatingMechanism_frame rpm isRotating delta rotation_y =
     (if isRotating then
        (let angularVelocity = (rpm * 2 * pi) / 60
         in rotation_y + angularVelocity * delta)
      else rotation_y)"

subsection \<open>The joint: \<^verbatim>\<open>UniversalJointAssembly\<close> (lines 227--324)\<close>

record joint_state =
  jointAngles_x :: real
  jointAngles_z :: real
  angularVelocities_x :: real
  angularVelocities_z :: real
  universalJoint_rotation_x :: real
  universalJoint_rotation_z :: real

text \<open>Lines 236--251: the target of the Z axis while driving (\<^verbatim>\<open>clampedTargetZ\<close>).\<close>

definition clampedTargetZ :: "planet \<Rightarrow> real \<Rightarrow> real" where
  "clampedTargetZ planet rpm =
     (let planetGravity = PLANET_DATA_gravity planet;
          angularVelocity = (rpm * 2 * pi) / 60;
          centrifugalAcceleration = angularVelocity * angularVelocity * ARM_LENGTH;
          targetAngleZ = (if planet = Space then pi / 2
                          else arctan (centrifugalAcceleration / planetGravity));
          maxAngle = pi / 2
      in min targetAngleZ maxAngle)"

definition targetAngleX :: real where
  "targetAngleX = 0"

definition UniversalJointAssembly_frame ::
    "real \<Rightarrow> bool \<Rightarrow> planet \<Rightarrow> real \<Rightarrow> real \<Rightarrow> joint_state \<Rightarrow> joint_state" where
  "UniversalJointAssembly_frame rpm isRotating planet personMass delta s =
     (let totalMass = BOX_MASS + personMass in
      if isRotating \<and> rpm > 0 then
        (let massInertiaFactor = sqrt (totalMass / 50);
             responseSpeed = GRAVITY_ALIGNMENT_SPEED / massInertiaFactor;
             angleDiffZ = clampedTargetZ planet rpm - jointAngles_z s;
             angleDiffX = targetAngleX - jointAngles_x s;
             newVelocities_x =
               (angularVelocities_x s + angleDiffX * responseSpeed * delta) * ANGULAR_DAMPING;
             newVelocities_z =
               (angularVelocities_z s + angleDiffZ * responseSpeed * delta) * ANGULAR_DAMPING;
             newAngles_x = jointAngles_x s + newVelocities_x * delta;
             newAngles_z = jointAngles_z s + newVelocities_z * delta
         in \<lparr> jointAngles_x = newAngles_x, jointAngles_z = newAngles_z,
              angularVelocities_x = newVelocities_x, angularVelocities_z = newVelocities_z,
              universalJoint_rotation_x = newAngles_x,
              universalJoint_rotation_z = newAngles_z \<rparr>)
      else if planet = Space then
        (let newVelocities_x = angularVelocities_x s * ANGULAR_DAMPING;
             newVelocities_z = angularVelocities_z s * ANGULAR_DAMPING
         in \<lparr> jointAngles_x = jointAngles_x s, jointAngles_z = jointAngles_z s,
              angularVelocities_x = newVelocities_x, angularVelocities_z = newVelocities_z,
              universalJoint_rotation_x = jointAngles_x s,
              universalJoint_rotation_z = jointAngles_z s \<rparr>)
      else
        (let returnSpeed = GRAVITY_ALIGNMENT_SPEED * 1.5;
             angleDiffX = - jointAngles_x s;
             angleDiffZ = - jointAngles_z s;
             newVelocities_x =
               (angularVelocities_x s + angleDiffX * returnSpeed * delta) * ANGULAR_DAMPING;
             newVelocities_z =
               (angularVelocities_z s + angleDiffZ * returnSpeed * delta) * ANGULAR_DAMPING;
             newAngles_x = jointAngles_x s + newVelocities_x * delta;
             newAngles_z = jointAngles_z s + newVelocities_z * delta
         in \<lparr> jointAngles_x = newAngles_x, jointAngles_z = newAngles_z,
              angularVelocities_x = newVelocities_x, angularVelocities_z = newVelocities_z,
              universalJoint_rotation_x = newAngles_x,
              universalJoint_rotation_z = newAngles_z \<rparr>))"

subsection \<open>The connecting arm: \<^verbatim>\<open>ConnectingArmToBox\<close> (lines 385--439)\<close>

record arm_state =
  inertialLagAngle :: real
  arm_rotation_x :: real

definition ConnectingArmToBox_frame ::
    "real \<Rightarrow> bool \<Rightarrow> planet \<Rightarrow> real \<Rightarrow> arm_state \<Rightarrow> arm_state" where
  "ConnectingArmToBox_frame rpm isRotating planet delta s =
     (let planetGravity = PLANET_DATA_gravity planet in
      if isRotating \<and> rpm > 0 then
        (let angularVelocity = (rpm * 2 * pi) / 60;
             centrifugalAcceleration = angularVelocity * angularVelocity * ARM_LENGTH;
             targetLagAngle =
               (if planet = Space
                then arctan (centrifugalAcceleration / 10) * CENTRIFUGAL_BULGE_FACTOR * 0.3
                else arctan (centrifugalAcceleration / planetGravity) * CENTRIFUGAL_BULGE_FACTOR);
             maxLagAngle = pi / 6;
             clampedLagAngle = min targetLagAngle maxLagAngle;
             lagSpeed = 2.0;
             angleDiff = clampedLagAngle - inertialLagAngle s;
             newLagAngle = inertialLagAngle s + angleDiff * lagSpeed * delta
         in \<lparr> inertialLagAngle = newLagAngle, arm_rotation_x = - newLagAngle \<rparr>)
      else if planet = Space then
        \<lparr> inertialLagAngle = inertialLagAngle s, arm_rotation_x = - inertialLagAngle s \<rparr>
      else
        (let returnSpeed = 3.0;
             angleDiff = - inertialLagAngle s;
             newLagAngle = inertialLagAngle s + angleDiff * returnSpeed * delta
         in \<lparr> inertialLagAngle = newLagAngle, arm_rotation_x = - newLagAngle \<rparr>))"

subsection \<open>The habitat: \<^verbatim>\<open>BoxHabitat\<close> (lines 489--636)\<close>

text \<open>
  \<^verbatim>\<open>Math.atan2(y, x)\<close> and \<^verbatim>\<open>THREE.MathUtils.lerp(x, y, t)\<close>, as the language and the
  Three.js library define them.
\<close>

definition atan2 :: "real \<Rightarrow> real \<Rightarrow> real" where
  "atan2 y x =
     (if x > 0 then arctan (y / x)
      else if x < 0 \<and> y \<ge> 0 then arctan (y / x) + pi
      else if x < 0 then arctan (y / x) - pi
      else if y > 0 then pi / 2
      else if y < 0 then - (pi / 2)
      else 0)"

definition lerp :: "real \<Rightarrow> real \<Rightarrow> real \<Rightarrow> real" where
  "lerp x y t = (1 - t) * x + t * y"

text \<open>
  \<open>boxRotation\<close> is the React state, \<open>box_rotation_y\<close> is \<^verbatim>\<open>boxRef.current.rotation.y\<close>,
  the module's self-rotation angle. Of the two arrows and the figure, the fields that a
  frame assigns are kept; components that every branch sets to the constant 0 and the
  fixed rotation of the centrifugal arrow are left out.
\<close>

record habitat_state =
  boxRotation :: real
  box_rotation_y :: real
  gravityArrow_visible :: bool
  gravityArrow_scale_y :: real
  gravityArrow_position_y :: real
  centrifugalArrow_scale_y :: real
  centrifugalArrow_position_x :: real
  person_position_y :: real
  person_rotation_x :: real
  person_rotation_y :: real
  person_rotation_z :: real

definition boxDimensions :: "boxType \<Rightarrow> real \<Rightarrow> real \<times> real \<times> real" where
  "boxDimensions bt boxSize =
     (case BOX_TYPES_dimensions bt of (dx, dy, dz) \<Rightarrow> (dx * boxSize, dy * boxSize, dz * boxSize))"

definition baseY :: "boxType \<Rightarrow> real \<Rightarrow> real" where
  "baseY bt boxSize =
     (if bt = Sphere then - boxSize / 2 + 0.1 + 0.4
      else - fst (snd (boxDimensions bt boxSize)) / 2 + 0.4)"

definition BoxHabitat_frame ::
    "real \<Rightarrow> bool \<Rightarrow> planet \<Rightarrow> real \<Rightarrow> bool \<Rightarrow> boxType \<Rightarrow> real \<Rightarrow> real \<Rightarrow> real
       \<Rightarrow> habitat_state \<Rightarrow> habitat_state" where
  "BoxHabitat_frame rpm isRotating planet personMass rotationLocked bt boxSize delta elapsedTime s =
     (let planetGravity = PLANET_DATA_gravity planet;
          dim0 = fst (boxDimensions bt boxSize);
          dim1 = fst (snd (boxDimensions bt boxSize)) in
      if isRotating \<and> rpm > 0 then
        (let angularVelocity = (rpm * 2 * pi) / 60;
             centrifugalAcceleration = angularVelocity * angularVelocity * ARM_LENGTH;
             gravityAngle = (if planet = Space then pi / 2
                             else atan2 centrifugalAcceleration planetGravity);
             targetRotation = - angularVelocity * elapsedTime;
             rotationDirection = (if angularVelocity > 0 then pi / 2 else - (pi / 2));
             massEffect = (personMass / 70) * 0.1;
             timeEffect = sin (elapsedTime * 2) * massEffect * 0.02
         in \<lparr> boxRotation = (if rotationLocked then targetRotation else 0),
              box_rotation_y = (if rotationLocked then targetRotation else 0),
              gravityArrow_visible = (planet \<noteq> Space),
              gravityArrow_scale_y =
                (if planet = Space then gravityArrow_scale_y s
                 else min (planetGravity / GRAVITY_CONSTANTS_earth) 2),
              gravityArrow_position_y =
                (if planet = Space then gravityArrow_position_y s else - dim1 / 2 + 0.1),
              centrifugalArrow_scale_y = min (centrifugalAcceleration / GRAVITY_CONSTANTS_earth) 3,
              centrifugalArrow_position_x = dim0 / 2 - 0.1,
              person_position_y = baseY bt boxSize,
              person_rotation_x = 0,
              person_rotation_y =
                rotationDirection + (if rotationLocked then boxRotation s else 0) + timeEffect,
              person_rotation_z = (if planet = Space then 0 else gravityAngle * 0.1) \<rparr>)
      else
        \<lparr> boxRotation = (if planet = Space then boxRotation s else 0),
          box_rotation_y =
            (if planet = Space then (if rotationLocked then boxRotation s else box_rotation_y s)
             else lerp (box_rotation_y s) 0 (delta * 3)),
          gravityArrow_visible = (planet \<noteq> Space),
          gravityArrow_scale_y = 1,
          gravityArrow_position_y = - dim1 / 2 + 0.1,
          centrifugalArrow_scale_y = 0.1,
          centrifugalArrow_position_x = dim0 / 2 - 0.1,
          person_position_y = baseY bt boxSize,
          person_rotation_x =
            (if planet = Space then person_rotation_x s
             else lerp (person_rotation_x s) 0 (delta * 3)),
          person_rotation_y =
            (if planet = Space then person_rotation_y s
             else lerp (person_rotation_y s) 0 (delta * 3)),
          person_rotation_z =
            (if planet = Space then person_rotation_z s
             else lerp (person_rotation_z s) 0 (delta * 3)) \<rparr>)"

subsection \<open>One frame of the whole mechanism\<close>

text \<open>
  The inputs of a frame: the props that \<^verbatim>\<open>App\<close> hands down, the renderer's \<^verbatim>\<open>delta\<close>
  and the clock reading \<^verbatim>\<open>state.clock.getElapsedTime()\<close>.
\<close>

record tick =
  t_rpm :: real
  t_isRotating :: bool
  t_planet :: planet
  t_personMass :: real
  t_rotationLocked :: bool
  t_boxType :: boxType
  t_boxSize :: real
  t_delta :: real
  t_elapsedTime :: real

record module_state =
  joint :: joint_state
  arm :: arm_state
  habitat :: habitat_state

record sim_state =
  mechanism_rotation_y :: real
  modules :: "module_state list"

definition joint_tick :: "tick \<Rightarrow> joint_state \<Rightarrow> joint_state" where
  "joint_tick t j =
     UniversalJointAssembly_frame (t_rpm t) (t_isRotating t) (t_planet t) (t_personMass t)
       (t_delta t) j"

definition arm_tick :: "tick \<Rightarrow> arm_state \<Rightarrow> arm_state" where
  "arm_tick t a =
     ConnectingArmToBox_frame (t_rpm t) (t_isRotating t) (t_planet t) (t_delta t) a"

definition habitat_tick :: "tick \<Rightarrow> habitat_state \<Rightarrow> habitat_state" where
  "habitat_tick t h =
     BoxHabitat_frame (t_rpm t) (t_isRotating t) (t_planet t) (t_personMass t)
       (t_rotationLocked t) (t_boxType t) (t_boxSize t) (t_delta t) (t_elapsedTime t) h"

definition module_frame :: "tick \<Rightarrow> module_state \<Rightarrow> module_state" where
  "module_frame t m =
     \<lparr> joint = joint_tick t (joint m), arm = arm_tick t (arm m),
       habitat = habitat_tick t (habitat m) \<rparr>"

definition frame :: "tick \<Rightarrow> sim_state \<Rightarrow> sim_state" where
  "frame t s =
     \<lparr> mechanism_rotation_y =
         MainRotatingMechanism_frame (t_rpm t) (t_isRotating t) (t_delta t) (mechanism_rotation_y s),
       modules = map (module_frame t) (modules s) \<rparr>"

fun run :: "tick list \<Rightarrow> sim_state \<Rightarrow> sim_state" where
  "run [] s = s"
| "run (t # ts) s = run ts (frame t s)"


text \<open>The state of freshly mounted components (\<^verbatim>\<open>useState\<close> initial values, Three.js defaults).\<close>

definition initial_joint :: joint_state where
  "initial_joint =
     \<lparr> jointAngles_x = 0, jointAngles_z = 0, angularVelocities_x = 0, angularVelocities_z = 0,
       universalJoint_rotation_x = 0, universalJoint_rotation_z = 0 \<rparr>"

definition initial_arm :: arm_state where
  "initial_arm = \<lparr> inertialLagAngle = 0, arm_rotation_x = 0 \<rparr>"

definition initial_habitat :: habitat_state where
  "initial_habitat =
     \<lparr> boxRotation = 0, box_rotation_y = 0, gravityArrow_visible = True,
       gravityArrow_scale_y = 1, gravityArrow_position_y = 0,
       centrifugalArrow_scale_y = 1, centrifugalArrow_position_x = 0,
       person_position_y = 0, person_rotation_x = 0, person_rotation_y = 0,
       person_rotation_z = 0 \<rparr>"

definition initial_module :: module_state where
  "initial_module = \<lparr> joint = initial_joint, arm = initial_arm, habitat = initial_habitat \<rparr>"

definition mount :: "habitatConfig \<Rightarrow> sim_state" where
  "mount c =
     \<lparr> mechanism_rotation_y = 0,
       modules = replicate (HABITAT_CONFIGS_count c) initial_module \<rparr>"

subsection \<open>The application: configuration state and controls\<close>















subsection \<open>The telemetry panel, with the rounding of the arithmetic made explicit\<close>

text \<open>
  The telemetry values are computed in \<^verbatim>\<open>App\<close> on every render. A claim about them
  speaks of exact equality of numbers, so here every arithmetic operation of the source
  is followed by the rounding \<open>fl\<close> of its result, and every decimal literal is rounded
  where it is used. With \<open>fl = binary64\<close> this is IEEE 754 double arithmetic (round to
  nearest, ties to even; magnitudes are assumed to stay in the normal range, which all
  values below do); with \<open>fl\<close> the identity it is exact arithmetic. \<^verbatim>\<open>Math.sqrt\<close>,
  \<^verbatim>\<open>Math.atan\<close>, \<^verbatim>\<open>Math.atan2\<close> and \<^verbatim>\<open>Math.pow\<close> are taken as correctly rounded.

  A JavaScript division by zero raises nothing and yields \<^verbatim>\<open>Infinity\<close> or \<^verbatim>\<open>NaN\<close>; to
  make such a division visible, every division by a computed quantity goes through
  \<open>checked_div\<close>, and \<open>None\<close> stands for a report in which some divisor was zero.
\<close>

definition rne :: "real \<Rightarrow> int" where
  "rne y =
     (let f = \<lfloor>y\<rfloor> in
      if y - of_int f < 1/2 then f
      else if 1/2 < y - of_int f then f + 1
      else if even f then f else f + 1)"

definition binary64 :: "real \<Rightarrow> real" where
  "binary64 x =
     (if x = 0 then 0
      else (let e = \<lfloor>log 2 \<bar>x\<bar>\<rfloor>
            in of_int (rne (x / 2 powr (of_int e - 52))) * 2 powr (of_int e - 52)))"

definition checked_div :: "(real \<Rightarrow> real) \<Rightarrow> real \<Rightarrow> real \<Rightarrow> real option" where
  "checked_div fl a b = (if b = 0 then None else Some (fl (a / b)))"

record physics_report =
  r_centrifugalAcceleration :: real
  r_totalGravity :: real
  r_artificialGravityRatio :: real
  r_idealAngle :: real
  r_gravityAngle :: real
  r_inertialLagAngle :: real

definition App_physics ::
    "(real \<Rightarrow> real) \<Rightarrow> real \<Rightarrow> bool \<Rightarrow> planet \<Rightarrow> real \<Rightarrow> physics_report option" where
  "App_physics fl rpm isRotating planet personMass =
     (let planetGravity = fl (PLANET_DATA_gravity planet);
          angularVelocity = fl (fl (fl (rpm * 2) * fl pi) / 60);
          centrifugalAcceleration =
            (if isRotating then fl (fl (angularVelocity * angularVelocity) * ARM_LENGTH) else 0);
          totalMass = fl (BOX_MASS + personMass);
          gravitationalForce = fl (totalMass * planetGravity);
          centrifugalForce = (if isRotating then fl (totalMass * centrifugalAcceleration) else 0);
          totalForce =
            (if isRotating then
               (if planet = Space then centrifugalForce
                else fl (sqrt (fl (fl (centrifugalForce * centrifugalForce)
                                   + fl (gravitationalForce * gravitationalForce)))))
             else gravitationalForce);
          degrees = fl (180 / fl pi)
      in do {
        totalGravity \<leftarrow> checked_div fl totalForce totalMass;
        artificialGravityRatio \<leftarrow> checked_div fl totalGravity (fl GRAVITY_CONSTANTS_earth);
        idealAngle \<leftarrow>
          (if isRotating then
             (if planet = Space then Some 90
              else do {
                q \<leftarrow> checked_div fl centrifugalAcceleration planetGravity;
                Some (fl (fl (arctan q) * degrees)) })
           else Some 0);
        gravityAngle \<leftarrow>
          (if isRotating then
             (if planet = Space then Some 90
              else Some (fl (fl (atan2 centrifugalAcceleration planetGravity) * degrees)))
           else Some 0);
        inertialLagAngle \<leftarrow>
          (if isRotating then
             (if planet = Space
              then Some (fl (fl (fl (fl (arctan (fl (centrifugalAcceleration / 10)))
                                     * fl CENTRIFUGAL_BULGE_FACTOR) * fl 0.3) * degrees))
              else do {
                q \<leftarrow> checked_div fl centrifugalAcceleration planetGravity;
                Some (fl (fl (fl (arctan q) * fl CENTRIFUGAL_BULGE_FACTOR) * degrees)) })
           else Some 0);
        Some \<lparr> r_centrifugalAcceleration = centrifugalAcceleration,
               r_totalGravity = totalGravity,
               r_artificialGravityRatio = artificialGravityRatio,
               r_idealAngle = idealAngle,
               r_gravityAngle = gravityAngle,
               r_inertialLagAngle = inertialLagAngle \<rparr>
      })"

text \<open>
  The second implementation (\<^verbatim>\<open>PHYSICS\<close>, \<^verbatim>\<open>PLANET_CONFIGS\<close> and \<^verbatim>\<open>App\<close>, lines 19--62
  and 701--716) has the same gravity table and computes its own report.
\<close>

definition PHYSICS_ARM_LENGTH :: real where
  "PHYSICS_ARM_LENGTH = 4.0"

definition PHYSICS_MAX_HINGE_ANGLE :: real where
  "PHYSICS_MAX_HINGE_ANGLE = 60"

fun PLANET_CONFIGS_gravity :: "planet \<Rightarrow> real" where
  "PLANET_CONFIGS_gravity Earth = 9.81"
| "PLANET_CONFIGS_gravity Moon = 1.62"
| "PLANET_CONFIGS_gravity Mars = 3.71"
| "PLANET_CONFIGS_gravity Space = 0.0"

record physics_report2 =
  r2_centrifugalAcceleration :: real
  r2_totalGravity :: real
  r2_hingeAngle :: real
  r2_gravityAngle :: real

definition App2_physics :: "(real \<Rightarrow> real) \<Rightarrow> real \<Rightarrow> planet \<Rightarrow> physics_report2 option" where
  "App2_physics fl rpm planet =
     (let planetGravity = fl (PLANET_CONFIGS_gravity planet);
          angularVelocity = fl (fl (fl (rpm * 2) * fl pi) / 60);
          centrifugalAcceleration = fl (fl (angularVelocity ^ 2) * PHYSICS_ARM_LENGTH);
          totalGravity = fl (sqrt (fl (fl (centrifugalAcceleration ^ 2) + fl (planetGravity ^ 2))));
          degrees = fl (180 / fl pi)
      in do {
        idealHingeAngle \<leftarrow>
          (if planetGravity > 0 then do {
             q \<leftarrow> checked_div fl centrifugalAcceleration planetGravity;
             Some (fl (fl (arctan q) * degrees)) }
           else Some (if centrifugalAcceleration > 0 then PHYSICS_MAX_HINGE_ANGLE else 0));
        gravityAngle \<leftarrow>
          (if planetGravity > 0 then do {
             q \<leftarrow> checked_div fl centrifugalAcceleration planetGravity;
             Some (fl (arctan q)) }
           else Some (if centrifugalAcceleration > 0 then fl (fl pi / 2) else 0));
        Some \<lparr> r2_centrifugalAcceleration = centrifugalAcceleration,
               r2_totalGravity = totalGravity,
               r2_hingeAngle = min idealHingeAngle PHYSICS_MAX_HINGE_ANGLE,
               r2_gravityAngle = gravityAngle \<rparr>
      })"

subsection \<open>The formulas of the specification, in its own words\<close>

text \<open>
  These definitions follow the specification text (sections 4.3 and 4.4), not the code;
  the theorems below compare the code with them.
\<close>

definition spec_centrifugalAccel :: "real \<Rightarrow> real" where
  "spec_centrifugalAccel rpm = (rpm * 2 * pi / 60)\<^sup>2 * 4.0"

definition spec_clamp :: "real \<Rightarrow> real \<Rightarrow> real \<Rightarrow> real" where
  "spec_clamp lo hi x = max lo (min hi x)"

definition spec_targetZ :: "planet \<Rightarrow> real \<Rightarrow> real" where
  "spec_targetZ planet rpm =
     (if planet = Space then pi / 2
      else spec_clamp 0 (pi / 2)
             (arctan (spec_centrifugalAccel rpm / PLANET_DATA_gravity planet)))"

definition spec_massInertiaFactor :: "real \<Rightarrow> real \<Rightarrow> real" where
  "spec_massInertiaFactor moduleBaseMass occupantMass =
     sqrt ((moduleBaseMass + occupantMass) / moduleBaseMass)"

definition spec_responseSpeed :: "real \<Rightarrow> real" where
  "spec_responseSpeed occupantMass = 1.5 / spec_massInertiaFactor 50 occupantMass"

definition spec_drive_velocity :: "real \<Rightarrow> real \<Rightarrow> real \<Rightarrow> real \<Rightarrow> real \<Rightarrow> real" where
  "spec_drive_velocity target responseSpeed dt angle velocity =
     (velocity + (target - angle) * responseSpeed * dt) * 0.88"

definition spec_drive_angle :: "real \<Rightarrow> real \<Rightarrow> real \<Rightarrow> real" where
  "spec_drive_angle dt angle velocity = angle + velocity * dt"

definition spec_lagTarget :: "planet \<Rightarrow> real \<Rightarrow> real" where
  "spec_lagTarget planet rpm =
     min (pi / 6)
       (if planet = Space then arctan (spec_centrifugalAccel rpm / 10) * 0.8 * 0.3
        else arctan (spec_centrifugalAccel rpm / PLANET_DATA_gravity planet) * 0.8)"

definition spec_lag_update :: "real \<Rightarrow> real \<Rightarrow> real \<Rightarrow> real" where
  "spec_lag_update target dt lag = lag + (target - lag) * 2.0 * dt"

subsection \<open>Regions of the joint's state space and the inputs used as examples\<close>

text \<open>
  \<open>axis_in_cone\<close>: the angle is within a quarter turn and so is the angle plus the
  velocity. \<open>joint_above_zero\<close>: the Z angle and the Z angle plus the Z velocity are not
  negative, and the X axis is at rest at 0.
\<close>

definition axis_in_cone :: "real \<Rightarrow> real \<Rightarrow> bool" where
  "axis_in_cone a v = (\<bar>a\<bar> \<le> pi / 2 \<and> \<bar>a + v\<bar> \<le> pi / 2)"

definition joint_in_cone :: "joint_state \<Rightarrow> bool" where
  "joint_in_cone j =
     (axis_in_cone (jointAngles_x j) (angularVelocities_x j)
      \<and> axis_in_cone (jointAngles_z j) (angularVelocities_z j))"

definition module_in_range :: "module_state \<Rightarrow> bool" where
  "module_in_range m =
     (joint_in_cone (joint m)
      \<and> 0 \<le> inertialLagAngle (arm m) \<and> inertialLagAngle (arm m) \<le> pi / 6)"


definition example_tick :: "real \<Rightarrow> bool \<Rightarrow> planet \<Rightarrow> bool \<Rightarrow> real \<Rightarrow> real \<Rightarrow> tick" where
  "example_tick rpm isRotating planet rotationLocked delta elapsedTime =
     \<lparr> t_rpm = rpm, t_isRotating = isRotating, t_planet = planet, t_personMass = 70,
       t_rotationLocked = rotationLocked, t_boxType = Cube, t_boxSize = 1,
       t_delta = delta, t_elapsedTime = elapsedTime \<rparr>"

definition rpm_change_ticks :: "tick list" where
  "rpm_change_ticks =
     [example_tick 30 True Earth True (1/10) (1/10),
      example_tick 15 True Earth True (1/10) (2/10)]"

definition pause_resume_ticks :: "tick list" where
  "pause_resume_ticks =
     [example_tick 30 True Earth True (1/10) (1/10),
      example_tick 30 False Earth True (1/10) (2/10),
      example_tick 30 True Earth True (1/10) (3/10)]"

definition long_frame_tick :: tick where
  "long_frame_tick = example_tick 60 True Space False 2 2"



section \<open>Helper lemmas\<close>

subsection \<open>The joint update, branch by branch\<close>

lemma joint_frame_drive:
  assumes "isRotating" and "0 < rpm"
  shows "UniversalJointAssembly_frame rpm isRotating planet personMass delta s =
     (let responseSpeed = GRAVITY_ALIGNMENT_SPEED / sqrt ((BOX_MASS + personMass) / 50);
          vx = spec_drive_velocity 0 responseSpeed delta (jointAngles_x s) (angularVelocities_x s);
          vz = spec_drive_velocity (clampedTargetZ planet rpm) responseSpeed delta
                 (jointAngles_z s) (angularVelocities_z s);
          ax = spec_drive_angle delta (jointAngles_x s) vx;
          az = spec_drive_angle delta (jointAngles_z s) vz
      in \<lparr> jointAngles_x = ax, jointAngles_z = az,
           angularVelocities_x = vx, angularVelocities_z = vz,
           universalJoint_rotation_x = ax, universalJoint_rotation_z = az \<rparr>)"
  using assms
  by (simp add: UniversalJointAssembly_frame_def spec_drive_velocity_def spec_drive_angle_def
      targetAngleX_def ANGULAR_DAMPING_def Let_def)

lemma joint_frame_return:
  assumes "\<not> (isRotating \<and> 0 < rpm)" and "planet \<noteq> Space"
  shows "UniversalJointAssembly_frame rpm isRotating planet personMass delta s =
     (let vx = spec_drive_velocity 0 (9/4) delta (jointAngles_x s) (angularVelocities_x s);
          vz = spec_drive_velocity 0 (9/4) delta (jointAngles_z s) (angularVelocities_z s);
          ax = spec_drive_angle delta (jointAngles_x s) vx;
          az = spec_drive_angle delta (jointAngles_z s) vz
      in \<lparr> jointAngles_x = ax, jointAngles_z = az,
           angularVelocities_x = vx, angularVelocities_z = vz,
           universalJoint_rotation_x = ax, universalJoint_rotation_z = az \<rparr>)"
  using assms
  by (auto simp add: UniversalJointAssembly_frame_def spec_drive_velocity_def spec_drive_angle_def
      GRAVITY_ALIGNMENT_SPEED_def ANGULAR_DAMPING_def Let_def)

lemma joint_frame_hold:
  assumes "\<not> (isRotating \<and> 0 < rpm)"
  shows "UniversalJointAssembly_frame rpm isRotating Space personMass delta s =
     \<lparr> jointAngles_x = jointAngles_x s, jointAngles_z = jointAngles_z s,
       angularVelocities_x = angularVelocities_x s * (88/100),
       angularVelocities_z = angularVelocities_z s * (88/100),
       universalJoint_rotation_x = jointAngles_x s,
       universalJoint_rotation_z = jointAngles_z s \<rparr>"
  using assms
  by (auto simp add: UniversalJointAssembly_frame_def ANGULAR_DAMPING_def Let_def)

lemma habitat_frame_locked:
  assumes "0 < rpm"
  shows "box_rotation_y
           (BoxHabitat_frame rpm True planet personMass True bt boxSize delta elapsedTime s)
         = - ((rpm * 2 * pi) / 60) * elapsedTime"
  using assms by (simp add: BoxHabitat_frame_def Let_def)

subsection \<open>One damped step stays below a bound\<close>

lemma damped_step_upper:
  fixes a v T k dt P :: real
  assumes dt: "0 \<le> dt" "dt \<le> 1/25" and k: "0 \<le> k" "k \<le> 9/4"
    and T: "T \<le> P" and a: "a \<le> P" and av: "a + v \<le> P"
  defines "v' \<equiv> (v + (T - a) * k * dt) * (88/100)"
  shows "a + v' * dt \<le> P \<and> (a + v' * dt) + v' \<le> P"
proof (cases "v' \<le> 0")
  case True
  with dt have "v' * dt \<le> 0" by (simp add: mult_nonpos_nonneg)
  with True a show ?thesis by linarith
next
  case False
  define u where "u = P - a"
  have u: "0 \<le> u" "v \<le> u" "T - a \<le> u" using a av T by (simp_all add: u_def)
  have kd: "0 \<le> k * dt" "k * dt \<le> 9/100"
  proof -
    show "0 \<le> k * dt" using k dt by simp
    have "k * dt \<le> (9/4) * (1/25)" using k dt by (intro mult_mono) simp_all
    then show "k * dt \<le> 9/100" by simp
  qed
  have "(T - a) * (k * dt) \<le> u * (k * dt)"
    using u kd by (intro mult_right_mono) simp_all
  then have w: "v + (T - a) * k * dt \<le> u * (1 + k * dt)"
    using u by (simp add: algebra_simps)
  have "u * (1 + k * dt) \<le> u * (109/100)"
    using u kd by (intro mult_left_mono) simp_all
  with w have v'le: "v' \<le> u * (109/100) * (88/100)"
    by (simp add: v'_def)
  have "v' * (1 + dt) \<le> v' * (104/100)"
    using False dt by (intro mult_left_mono) simp_all
  also have "\<dots> \<le> (u * (109/100) * (88/100)) * (104/100)"
    using v'le by simp
  also have "\<dots> \<le> u" using u by simp
  finally have main: "v' * (1 + dt) \<le> u" .
  have vdt: "v' * dt \<le> v' * (1 + dt)"
    using False dt by (intro mult_left_mono) simp_all
  have e: "(a + v' * dt) + v' = a + v' * (1 + dt)" by (simp add: algebra_simps)
  from main vdt e show ?thesis unfolding u_def by linarith
qed

lemma spec_drive_upper:
  assumes "0 \<le> dt" "dt \<le> 1/25" "0 \<le> k" "k \<le> 9/4" "T \<le> P" "a \<le> P" "a + v \<le> P"
  shows "spec_drive_angle dt a (spec_drive_velocity T k dt a v) \<le> P
       \<and> spec_drive_angle dt a (spec_drive_velocity T k dt a v)
           + spec_drive_velocity T k dt a v \<le> P"
  using damped_step_upper [OF assms]
  by (simp add: spec_drive_angle_def spec_drive_velocity_def)

lemma spec_drive_negate:
  "spec_drive_velocity (- T) k dt (- a) (- v) = - spec_drive_velocity T k dt a v"
  "spec_drive_angle dt (- a) (- w) = - spec_drive_angle dt a w"
  by (simp_all add: spec_drive_velocity_def spec_drive_angle_def field_simps)

lemma spec_drive_lower:
  assumes "0 \<le> dt" "dt \<le> 1/25" "0 \<le> k" "k \<le> 9/4" "P \<le> T" "P \<le> a" "P \<le> a + v"
  shows "P \<le> spec_drive_angle dt a (spec_drive_velocity T k dt a v)
       \<and> P \<le> spec_drive_angle dt a (spec_drive_velocity T k dt a v)
           + spec_drive_velocity T k dt a v"
proof -
  have n: "- T \<le> - P" "- a \<le> - P" "- a + - v \<le> - P" using assms by simp_all
  from spec_drive_upper [OF assms(1-4) n] show ?thesis
    by (simp add: spec_drive_negate)
qed

lemma spec_drive_cone:
  assumes dt: "0 \<le> dt" "dt \<le> 1/25" and k: "0 \<le> k" "k \<le> 9/4"
    and T: "\<bar>T\<bar> \<le> pi / 2" and c: "axis_in_cone a v"
  shows "axis_in_cone (spec_drive_angle dt a (spec_drive_velocity T k dt a v))
           (spec_drive_velocity T k dt a v)"
proof -
  have up: "T \<le> pi / 2" "a \<le> pi / 2" "a + v \<le> pi / 2"
    using T c unfolding axis_in_cone_def by linarith+
  have lo: "- (pi / 2) \<le> T" "- (pi / 2) \<le> a" "- (pi / 2) \<le> a + v"
    using T c unfolding axis_in_cone_def by linarith+
  from spec_drive_upper [OF dt k up] spec_drive_lower [OF dt k lo]
  show ?thesis unfolding axis_in_cone_def by linarith
qed

lemma hold_cone:
  assumes "axis_in_cone a v"
  shows "axis_in_cone a (v * (88/100))"
  using assms unfolding axis_in_cone_def by linarith

subsection \<open>Targets and response speeds are in range\<close>

lemma gravity_pos: "planet \<noteq> Space \<Longrightarrow> 0 < PLANET_DATA_gravity planet"
  by (cases planet) simp_all

lemma clampedTargetZ_range: "0 \<le> clampedTargetZ planet rpm \<and> clampedTargetZ planet rpm \<le> pi / 2"
proof (cases "planet = Space")
  case True
  then show ?thesis by (simp add: clampedTargetZ_def)
next
  case False
  have "0 \<le> (rpm * 2 * pi) / 60 * ((rpm * 2 * pi) / 60) * ARM_LENGTH / PLANET_DATA_gravity planet"
    using gravity_pos [OF False] by (simp add: ARM_LENGTH_def)
  then show ?thesis
    using False by (simp add: clampedTargetZ_def Let_def)
qed

lemma responseSpeed_range:
  assumes "0 \<le> personMass"
  shows "0 \<le> GRAVITY_ALIGNMENT_SPEED / sqrt ((BOX_MASS + personMass) / 50)
       \<and> GRAVITY_ALIGNMENT_SPEED / sqrt ((BOX_MASS + personMass) / 50) \<le> 9/4"
proof -
  have "1 \<le> (BOX_MASS + personMass) / 50" using assms by (simp add: BOX_MASS_def)
  then have r: "1 \<le> sqrt ((BOX_MASS + personMass) / 50)" by (rule real_sqrt_ge_one)
  then have "3/2 / sqrt ((BOX_MASS + personMass) / 50) \<le> 3/2 / 1"
    by (intro divide_left_mono) simp_all
  with r show ?thesis by (simp add: GRAVITY_ALIGNMENT_SPEED_def)
qed

lemma joint_tick_cone:
  assumes dt: "0 \<le> t_delta t" "t_delta t \<le> 1/25" and m: "0 \<le> t_personMass t"
    and c: "joint_in_cone j"
  shows "joint_in_cone (joint_tick t j)"
proof -
  from c have cx: "axis_in_cone (jointAngles_x j) (angularVelocities_x j)"
    and cz: "axis_in_cone (jointAngles_z j) (angularVelocities_z j)"
    by (simp_all add: joint_in_cone_def)
  have T0: "\<bar>0::real\<bar> \<le> pi / 2" by simp
  show ?thesis
  proof (cases "t_isRotating t \<and> 0 < t_rpm t")
    case True
    from responseSpeed_range [OF m]
    have k: "0 \<le> GRAVITY_ALIGNMENT_SPEED / sqrt ((BOX_MASS + t_personMass t) / 50)"
      "GRAVITY_ALIGNMENT_SPEED / sqrt ((BOX_MASS + t_personMass t) / 50) \<le> 9/4"
      by simp_all
    have Tz: "\<bar>clampedTargetZ (t_planet t) (t_rpm t)\<bar> \<le> pi / 2"
      using clampedTargetZ_range [of "t_planet t" "t_rpm t"] by (simp add: abs_le_iff)
    from True spec_drive_cone [OF dt k T0 cx] spec_drive_cone [OF dt k Tz cz]
    show ?thesis
      by (simp add: joint_tick_def joint_frame_drive joint_in_cone_def Let_def)
  next
    case False
    show ?thesis
    proof (cases "t_planet t = Space")
      case True
      from hold_cone [OF cx] hold_cone [OF cz] show ?thesis
        using False True
        by (simp add: joint_tick_def joint_frame_hold joint_in_cone_def)
    next
      case notSpace: False
      have k: "(0::real) \<le> 9/4" "(9/4::real) \<le> 9/4" by simp_all
      from spec_drive_cone [OF dt k T0 cx] spec_drive_cone [OF dt k T0 cz]
      show ?thesis
        using False notSpace
        by (simp add: joint_tick_def joint_frame_return joint_in_cone_def Let_def)
    qed
  qed
qed

subsection \<open>The arm lag stays in range\<close>

lemma lag_step_range:
  fixes lag T c dt M :: real
  assumes "0 \<le> dt" "c * dt \<le> 1" "0 \<le> c" "0 \<le> T" "T \<le> M" "0 \<le> lag" "lag \<le> M"
  shows "0 \<le> lag + (T - lag) * c * dt \<and> lag + (T - lag) * c * dt \<le> M"
proof -
  define q where "q = c * dt"
  have q: "0 \<le> q" "q \<le> 1" using assms by (simp_all add: q_def)
  have e: "lag + (T - lag) * c * dt = (1 - q) * lag + q * T"
    by (simp add: q_def algebra_simps)
  have "0 \<le> (1 - q) * lag + q * T" using q assms by simp
  moreover have "(1 - q) * lag + q * T \<le> (1 - q) * M + q * M"
    using q assms by (intro add_mono mult_left_mono) simp_all
  then have "(1 - q) * lag + q * T \<le> M" by (simp add: algebra_simps)
  ultimately show ?thesis unfolding e by simp
qed

lemma arm_tick_range:
  assumes dt: "0 \<le> t_delta t" "t_delta t \<le> 1/25"
    and r: "0 \<le> inertialLagAngle a" "inertialLagAngle a \<le> pi / 6"
  shows "0 \<le> inertialLagAngle (arm_tick t a) \<and> inertialLagAngle (arm_tick t a) \<le> pi / 6"
proof (cases "t_isRotating t \<and> 0 < t_rpm t")
  case True
  define ca where "ca = (t_rpm t * 2 * pi) / 60 * ((t_rpm t * 2 * pi) / 60) * ARM_LENGTH"
  define T where "T = min (if t_planet t = Space
                then arctan (ca / 10) * CENTRIFUGAL_BULGE_FACTOR * 0.3
                else arctan (ca / PLANET_DATA_gravity (t_planet t)) * CENTRIFUGAL_BULGE_FACTOR)
               (pi / 6)"
  have ca: "0 \<le> ca" by (simp add: ca_def ARM_LENGTH_def)
  have "0 \<le> ca / PLANET_DATA_gravity (t_planet t)"
    using ca by (cases "t_planet t") simp_all
  with ca have T: "0 \<le> T" "T \<le> pi / 6"
    by (simp_all add: T_def CENTRIFUGAL_BULGE_FACTOR_def)
  have c: "2 * t_delta t \<le> 1" "(0::real) \<le> 2" using dt by simp_all
  have e: "inertialLagAngle (arm_tick t a)
           = inertialLagAngle a + (T - inertialLagAngle a) * 2 * t_delta t"
    using True by (simp add: arm_tick_def ConnectingArmToBox_frame_def Let_def T_def ca_def)
  show ?thesis unfolding e by (rule lag_step_range [OF dt(1) c T r])
next
  case False
  show ?thesis
  proof (cases "t_planet t = Space")
    case True
    with False r show ?thesis
      by (auto simp add: arm_tick_def ConnectingArmToBox_frame_def)
  next
    case notSpace: False
    have c: "3 * t_delta t \<le> 1" "(0::real) \<le> 3" using dt by simp_all
    have T: "(0::real) \<le> 0" "0 \<le> pi / 6" by simp_all
    have e: "inertialLagAngle (arm_tick t a)
             = inertialLagAngle a + (0 - inertialLagAngle a) * 3 * t_delta t"
      using False notSpace by (auto simp add: arm_tick_def ConnectingArmToBox_frame_def Let_def)
    show ?thesis unfolding e by (rule lag_step_range [OF dt(1) c T r])
  qed
qed

subsection \<open>Sequences of frames\<close>

lemma module_frame_in_range:
  assumes "0 \<le> t_delta t" "t_delta t \<le> 1/25" "0 \<le> t_personMass t" "module_in_range m"
  shows "module_in_range (module_frame t m)"
  using assms joint_tick_cone [of t "joint m"] arm_tick_range [of t "arm m"]
  by (simp add: module_in_range_def module_frame_def)

lemma run_in_range:
  assumes "\<forall>t\<in>set ticks. 0 \<le> t_delta t \<and> t_delta t \<le> 1/25 \<and> 0 \<le> t_personMass t"
    and "\<forall>m\<in>set (modules s). module_in_range m"
  shows "\<forall>m\<in>set (modules (run ticks s)). module_in_range m"
  using assms
proof (induction ticks arbitrary: s)
  case Nil
  then show ?case by simp
next
  case (Cons t ticks)
  from Cons.prems have "\<forall>m\<in>set (modules (frame t s)). module_in_range m"
    by (auto simp add: frame_def intro: module_frame_in_range)
  with Cons show ?case by simp
qed

lemma mount_in_range: "\<forall>m\<in>set (modules (mount c)). module_in_range m"
  by (simp add: mount_def initial_module_def initial_joint_def initial_arm_def
      module_in_range_def joint_in_cone_def axis_in_cone_def)


subsection \<open>The stopped joint in a gravity environment\<close>



text \<open>
  For frames of at most 1/25 s and a non-negative occupant mass the limits are an
  invariant of the mounted mechanism: the excursions beyond them need longer frames.
\<close>

lemma short_frames_stay_in_range:
  assumes "\<forall>t\<in>set ticks. 0 \<le> t_delta t \<and> t_delta t \<le> 1/25 \<and> 0 \<le> t_personMass t"
  shows "\<forall>m\<in>set (modules (run ticks (mount c))).
           \<bar>jointAngles_x (joint m)\<bar> \<le> pi / 2 \<and> \<bar>jointAngles_z (joint m)\<bar> \<le> pi / 2
           \<and> 0 \<le> inertialLagAngle (arm m) \<and> inertialLagAngle (arm m) \<le> pi / 6"
  using run_in_range [OF assms mount_in_range]
  by (simp add: module_in_range_def joint_in_cone_def axis_in_cone_def)



subsection \<open>From the mounted state the joint never goes below 0\<close>







subsection \<open>Evaluating the rounding\<close>

lemma binary64_zero: "binary64 0 = 0"
  by (simp add: binary64_def)

lemma binary64_at:
  fixes x :: real and n :: nat
  assumes "2 ^ n \<le> x" and "x < 2 ^ (n + 1)"
  shows "binary64 x = of_int (rne (x * 2 ^ 52 / 2 ^ n)) * 2 ^ n / 2 ^ 52"
proof -
  have "(0::real) < 2 ^ n" by simp
  with assms(1) have pos: "0 < x" by linarith
  have "(2::real) powr (of_int (int n)) \<le> x \<and> x < 2 powr (of_int (int n) + 1)"
    using assms by (simp add: powr_realpow powr_add)
  then have e: "\<lfloor>log 2 x\<rfloor> = int n"
    using floor_log_eq_powr_iff [of x 2 "int n"] pos by simp
  have p: "(2::real) powr (real n - 52) = 2 ^ n / 2 ^ 52"
    by (simp add: powr_diff powr_realpow)
  show ?thesis
    using pos by (simp add: binary64_def e p Let_def)
qed

lemma rne_near:
  assumes "of_int m - 1/2 < y" and "y < of_int m + 1/2"
  shows "rne y = m"
proof (cases "of_int m \<le> y")
  case True
  with assms have "\<lfloor>y\<rfloor> = m" by (intro floor_unique) simp_all
  with assms show ?thesis by (simp add: rne_def)
next
  case False
  with assms have f: "\<lfloor>y\<rfloor> = m - 1" by (intro floor_unique) simp_all
  have "1/2 < y - of_int (m - 1)" using assms by simp
  then show ?thesis unfolding rne_def f Let_def by simp
qed

lemma binary64_earth: "binary64 9.81 = 5522539043063071 / 2 ^ 49"
proof -
  have "binary64 (981/100) = of_int (rne ((981/100) * 2 ^ 52 / 2 ^ 3)) * 2 ^ 3 / 2 ^ 52"
    by (rule binary64_at) simp_all
  also have "rne ((981/100) * 2 ^ 52 / 2 ^ 3) = 5522539043063071"
    by (simp add: rne_def Let_def)
  finally show ?thesis by simp
qed

lemma binary64_105: "binary64 105 = 105"
proof -
  have "binary64 105 = of_int (rne (105 * 2 ^ 52 / 2 ^ 6)) * 2 ^ 6 / 2 ^ 52"
    by (rule binary64_at) simp_all
  also have "rne (105 * 2 ^ 52 / 2 ^ 6) = 7388718138654720"
    by (simp add: rne_def Let_def)
  finally show ?thesis by simp
qed

lemma binary64_force: "binary64 (105 * (5522539043063071 / 2 ^ 49)) = 4530207808762675 / 2 ^ 42"
proof -
  let ?x = "105 * (5522539043063071 / 2 ^ 49) :: real"
  have "binary64 ?x = of_int (rne (?x * 2 ^ 52 / 2 ^ 10)) * 2 ^ 10 / 2 ^ 52"
    by (rule binary64_at) simp_all
  also have "rne (?x * 2 ^ 52 / 2 ^ 10) = 4530207808762675"
    by (simp add: rne_def Let_def)
  finally show ?thesis by simp
qed

lemma binary64_quotient: "binary64 (4530207808762675 / 2 ^ 42 / 105) = 5522539043063070 / 2 ^ 49"
proof -
  let ?x = "4530207808762675 / 2 ^ 42 / 105 :: real"
  have "binary64 ?x = of_int (rne (?x * 2 ^ 52 / 2 ^ 3)) * 2 ^ 3 / 2 ^ 52"
    by (rule binary64_at) simp_all
  also have "rne (?x * 2 ^ 52 / 2 ^ 3) = 5522539043063070"
    by (simp add: rne_def Let_def)
  finally show ?thesis by simp
qed

lemma binary64_earth_squared:
  "binary64 ((5522539043063071 / 2 ^ 49)\<^sup>2) = 6772013501556091 / 2 ^ 46"
proof -
  let ?x = "(5522539043063071 / 2 ^ 49)\<^sup>2 :: real"
  have "binary64 ?x = of_int (rne (?x * 2 ^ 52 / 2 ^ 6)) * 2 ^ 6 / 2 ^ 52"
    by (rule binary64_at) (simp_all add: power2_eq_square)
  also have "rne (?x * 2 ^ 52 / 2 ^ 6) = 6772013501556091"
    by (simp add: rne_def Let_def power2_eq_square)
  finally show ?thesis by simp
qed

lemma binary64_fixed: "binary64 (6772013501556091 / 2 ^ 46) = 6772013501556091 / 2 ^ 46"
proof -
  let ?x = "6772013501556091 / 2 ^ 46 :: real"
  have "binary64 ?x = of_int (rne (?x * 2 ^ 52 / 2 ^ 6)) * 2 ^ 6 / 2 ^ 52"
    by (rule binary64_at) simp_all
  also have "rne (?x * 2 ^ 52 / 2 ^ 6) = 6772013501556091"
    by (simp add: rne_def Let_def)
  finally show ?thesis by simp
qed

lemma binary64_sqrt_earth:
  "binary64 (sqrt (6772013501556091 / 2 ^ 46)) = 5522539043063071 / 2 ^ 49"
proof -
  let ?q = "6772013501556091 / 2 ^ 46 :: real"
  let ?lo = "(2 * 5522539043063071 - 1) / 2 ^ 50 :: real"
  let ?hi = "(2 * 5522539043063071 + 1) / 2 ^ 50 :: real"
  have lo: "?lo < sqrt ?q" by (rule real_less_rsqrt) (simp add: power2_eq_square)
  have hi: "sqrt ?q < ?hi" by (rule real_less_lsqrt) (simp_all add: power2_eq_square)
  have r: "2 ^ 3 \<le> sqrt ?q" "sqrt ?q < 2 ^ (3 + 1)"
    using lo hi by simp_all
  have "rne (sqrt ?q * 2 ^ 52 / 2 ^ 3) = 5522539043063071"
    by (rule rne_near) (use lo hi in simp_all)
  with binary64_at [OF r] show ?thesis by simp
qed

lemma App_physics_at_rest_55:
  "\<exists>q. App_physics binary64 0 False Earth 55 =
     Some \<lparr> r_centrifugalAcceleration = 0,
            r_totalGravity = 5522539043063070 / 2 ^ 49,
            r_artificialGravityRatio = q,
            r_idealAngle = 0, r_gravityAngle = 0, r_inertialLagAngle = 0 \<rparr>"
proof -
  have m: "binary64 (BOX_MASS + 55) = 105"
    using binary64_105 by (simp add: BOX_MASS_def)
  have g: "binary64 (PLANET_DATA_gravity Earth) = 5522539043063071 / 2 ^ 49"
    using binary64_earth by simp
  have f: "binary64 (105 * binary64 (PLANET_DATA_gravity Earth)) = 4530207808762675 / 2 ^ 42"
    unfolding g by (rule binary64_force)
  have cd: "checked_div binary64 (4530207808762675 / 2 ^ 42) 105
            = Some (5522539043063070 / 2 ^ 49)"
    unfolding checked_div_def binary64_quotient by simp
  have e: "binary64 GRAVITY_CONSTANTS_earth \<noteq> 0"
    using binary64_earth by (simp add: GRAVITY_CONSTANTS_earth_def)
  obtain q where cd2: "checked_div binary64 (5522539043063070 / 2 ^ 49)
                         (binary64 GRAVITY_CONSTANTS_earth) = Some q"
    using e unfolding checked_div_def by simp
  have "App_physics binary64 0 False Earth 55 =
     Some \<lparr> r_centrifugalAcceleration = 0,
            r_totalGravity = 5522539043063070 / 2 ^ 49,
            r_artificialGravityRatio = q,
            r_idealAngle = 0, r_gravityAngle = 0, r_inertialLagAngle = 0 \<rparr>"
    unfolding App_physics_def Let_def m f
    by (simp only: if_False cd cd2 Option.bind.bind_lunit)
  then show ?thesis ..
qed

lemma App2_physics_at_rest:
  "map_option r2_totalGravity (App2_physics binary64 0 Earth) = Some (5522539043063071 / 2 ^ 49)"
proof -
  have g: "binary64 (PLANET_CONFIGS_gravity Earth) = 5522539043063071 / 2 ^ 49"
    using binary64_earth by simp
  have z: "binary64 (binary64 (binary64 (0 * 2) * binary64 pi) / 60) = 0"
    by (simp add: binary64_zero)
  have c: "binary64 (binary64 (0 ^ 2) * PHYSICS_ARM_LENGTH) = 0"
    by (simp add: binary64_zero)
  have s: "binary64 (binary64 (0 ^ 2) + 6772013501556091 / 2 ^ 46) = 6772013501556091 / 2 ^ 46"
    using binary64_fixed by (simp add: binary64_zero)
  have pos: "(0::real) < 5522539043063071 / 2 ^ 49" by simp
  obtain q1 where q1: "checked_div binary64 0 (5522539043063071 / 2 ^ 49) = Some q1"
    unfolding checked_div_def by simp
  show ?thesis
    unfolding App2_physics_def Let_def g z c binary64_earth_squared s binary64_sqrt_earth
    by (simp only: pos if_True q1 Option.bind.bind_lunit option.map physics_report2.simps)
qed

lemma zero_spin_exact_arithmetic:
  assumes "0 < BOX_MASS + personMass"
  shows "map_option r_centrifugalAcceleration
           (App_physics (\<lambda>x. x) 0 isRotating planet personMass) = Some 0"
    and "map_option r_totalGravity (App_physics (\<lambda>x. x) 0 isRotating planet personMass)
           = Some (PLANET_DATA_gravity planet)"
proof -
  have g: "0 \<le> PLANET_DATA_gravity planet" by (cases planet) simp_all
  have g0: "planet \<noteq> Space \<Longrightarrow> PLANET_DATA_gravity planet \<noteq> 0" by (cases planet) simp_all
  from assms have m: "BOX_MASS + personMass \<noteq> 0" "0 \<le> BOX_MASS + personMass" by simp_all
  have s: "sqrt ((BOX_MASS + personMass) * PLANET_DATA_gravity planet
                 * ((BOX_MASS + personMass) * PLANET_DATA_gravity planet))
           = (BOX_MASS + personMass) * PLANET_DATA_gravity planet"
    using m g by simp
  show "map_option r_centrifugalAcceleration
           (App_physics (\<lambda>x. x) 0 isRotating planet personMass) = Some 0"
    using m g0 by (simp add: App_physics_def checked_div_def GRAVITY_CONSTANTS_earth_def Let_def)
  show "map_option r_totalGravity (App_physics (\<lambda>x. x) 0 isRotating planet personMass)
           = Some (PLANET_DATA_gravity planet)"
    using m g0 s by (simp add: App_physics_def checked_div_def GRAVITY_CONSTANTS_earth_def Let_def)
qed

subsection \<open>Configurations reachable through the controls\<close>








section \<open>Properties\<close>

text \<open>
  C1 (self-rotation cancellation), evaluated at two input sequences with rotation lock
  on, two modules, on Earth, and a clock whose elapsed time is the sum of the frame
  deltas. The hub integrates \<open>angularVelocity * delta\<close> frame by frame, while the
  counter-rotation of each module is recomputed as \<open>- angularVelocity * elapsedTime\<close>
  from the current rate and the clock. After a change of rate from 30 to 15 rpm the hub is
  at \<open>3 * pi / 20\<close> and every module's counter-angle is \<open>- pi / 10\<close>: the sum is
  \<open>pi / 20\<close>, not 0. After a pause of one frame and a resume at 30 rpm the hub is at
  \<open>pi / 5\<close> and the counter-angle is \<open>- 3 * pi / 10\<close>: the sum is \<open>- pi / 10\<close>.
\<close>

theorem rotation_lock_drifts:
  "mechanism_rotation_y (run rpm_change_ticks (mount Dual)) = 3 * pi / 20
   \<and> map (box_rotation_y \<circ> habitat) (modules (run rpm_change_ticks (mount Dual)))
       = [- (pi / 10), - (pi / 10)]
   \<and> mechanism_rotation_y (run pause_resume_ticks (mount Dual)) = pi / 5
   \<and> map (box_rotation_y \<circ> habitat) (modules (run pause_resume_ticks (mount Dual)))
       = [- (3 * pi / 10), - (3 * pi / 10)]"
  by (simp add: rpm_change_ticks_def pause_resume_ticks_def example_tick_def mount_def
      frame_def module_frame_def habitat_tick_def habitat_frame_locked
      MainRotatingMechanism_frame_def numeral_2_eq_2)

text \<open>
  C2 (bounds), evaluated at one long frame. The joint declares \<^verbatim>\<open>maxAngle\<close> (90 degrees)
  and the arm declares \<^verbatim>\<open>maxLagAngle\<close> (30 degrees), but both are applied to the target
  only: no frame limits \<open>jointAngles\<close> or \<open>inertialLagAngle\<close> after the update. A single
  driving frame of 2 s in \<open>Space\<close> at 60 rpm (occupant mass 70), from the freshly mounted
  state, takes the Z angle beyond \<open>pi / 2\<close> and the lag angle beyond \<open>pi / 6\<close>.
\<close>

theorem long_frame_exceeds_bounds:
  "pi / 2 < jointAngles_z (joint (hd (modules (frame long_frame_tick (mount Dual)))))
   \<and> pi / 6 < inertialLagAngle (arm (hd (modules (frame long_frame_tick (mount Dual)))))"
proof -
  have s: "sqrt (12/5) < 2"
    using real_sqrt_less_iff [of "12/5" 4] by simp
  have s0: "0 < sqrt (12/5::real)" by simp
  have jz: "jointAngles_z (joint (hd (modules (frame long_frame_tick (mount Dual)))))
            = pi / 2 * (3/2 / sqrt (12/5) * (88/25))"
    by (simp add: long_frame_tick_def example_tick_def frame_def module_frame_def joint_tick_def
        mount_def initial_module_def initial_joint_def numeral_2_eq_2 joint_frame_drive
        clampedTargetZ_def spec_drive_velocity_def spec_drive_angle_def BOX_MASS_def
        GRAVITY_ALIGNMENT_SPEED_def Let_def)
  have "1 < 3/2 / sqrt (12/5) * (88/25)"
    using s s0 by (simp add: field_simps)
  then have "pi / 2 * 1 < pi / 2 * (3/2 / sqrt (12/5) * (88/25))"
    by (intro mult_strict_left_mono) simp_all
  then have A: "pi / 2 < jointAngles_z (joint (hd (modules (frame long_frame_tick (mount Dual)))))"
    unfolding jz by simp
  define ca where "ca = (60 * 2 * pi) / 60 * ((60 * 2 * pi) / 60) * ARM_LENGTH"
  have lag: "inertialLagAngle (arm (hd (modules (frame long_frame_tick (mount Dual)))))
            = min (arctan (ca / 10) * (8/10) * (3/10)) (pi / 6) * 4"
    by (simp add: long_frame_tick_def example_tick_def frame_def module_frame_def arm_tick_def
        mount_def initial_module_def initial_arm_def numeral_2_eq_2 ConnectingArmToBox_frame_def
        CENTRIFUGAL_BULGE_FACTOR_def ca_def Let_def)
  have "2 * 2 \<le> pi * pi" using pi_ge_two by (intro mult_mono) simp_all
  then have "1 \<le> ca / 10" by (simp add: ca_def ARM_LENGTH_def)
  then have "arctan 1 \<le> arctan (ca / 10)" by (rule arctan_monotone')
  then have "pi / 4 \<le> arctan (ca / 10)" by (simp add: arctan_one)
  then have "pi * (6/100) \<le> arctan (ca / 10) * (8/10) * (3/10)" by simp
  moreover have "pi * (6/100) \<le> pi / 6" by simp
  ultimately have "pi * (6/100) \<le> min (arctan (ca / 10) * (8/10) * (3/10)) (pi / 6)"
    by (rule min.boundedI)
  then have "pi * (24/100) \<le> min (arctan (ca / 10) * (8/10) * (3/10)) (pi / 6) * 4"
    by linarith
  moreover have "pi / 6 < pi * (24/100)" by simp
  ultimately have B: "pi / 6 < inertialLagAngle (arm (hd (modules (frame long_frame_tick (mount Dual)))))"
    unfolding lag by linarith
  from A B show ?thesis by simp
qed


text \<open>
  C3 (vacuum hold on stop). In the \<open>Space\<close> environment a frame taken with
  \<open>isRotating = False\<close> leaves both joint angles exactly as they were and multiplies each
  angular velocity by the damping factor 0.88; the rendered joint rotation is set to the
  unchanged angles. As the statement holds for every state, it holds at every frame after
  the stop.
\<close>

theorem vacuum_hold_on_stop:
  "UniversalJointAssembly_frame rpm False Space personMass delta s =
     s \<lparr> angularVelocities_x := angularVelocities_x s * 0.88,
         angularVelocities_z := angularVelocities_z s * 0.88,
         universalJoint_rotation_x := jointAngles_x s,
         universalJoint_rotation_z := jointAngles_z s \<rparr>
   \<and> jointAngles_x (UniversalJointAssembly_frame rpm False Space personMass delta s)
       = jointAngles_x s
   \<and> jointAngles_z (UniversalJointAssembly_frame rpm False Space personMass delta s)
       = jointAngles_z s"
  by (simp add: UniversalJointAssembly_frame_def ANGULAR_DAMPING_def Let_def)

text \<open>
  C4 (drive update). With \<open>isRotating\<close> true and \<open>rpm > 0\<close> (and a positive total mass, so
  that the square root and the quotient are those of the program), one frame of the joint
  is the specification's update: \<open>massInertiaFactor = sqrt ((50 + personMass) / 50)\<close>,
  \<open>responseSpeed = 1.5 / massInertiaFactor\<close>, the new velocity is
  \<open>(velocity + (target - angle) * responseSpeed * dt) * 0.88\<close> and the new angle is
  \<open>angle + velocity * dt\<close> with the new velocity, on the X axis with target 0 and on the Z
  axis with the target of the frame.
\<close>

theorem drive_update_formula:
  assumes "0 < rpm" and "0 < BOX_MASS + personMass"
  shows "UniversalJointAssembly_frame rpm True planet personMass delta s =
     (let massInertiaFactor = spec_massInertiaFactor BOX_MASS personMass;
          responseSpeed = 1.5 / massInertiaFactor;
          vx = spec_drive_velocity 0 responseSpeed delta (jointAngles_x s) (angularVelocities_x s);
          vz = spec_drive_velocity (clampedTargetZ planet rpm) responseSpeed delta
                 (jointAngles_z s) (angularVelocities_z s);
          ax = spec_drive_angle delta (jointAngles_x s) vx;
          az = spec_drive_angle delta (jointAngles_z s) vz
      in \<lparr> jointAngles_x = ax, jointAngles_z = az,
           angularVelocities_x = vx, angularVelocities_z = vz,
           universalJoint_rotation_x = ax, universalJoint_rotation_z = az \<rparr>)
    \<and> 1.5 / spec_massInertiaFactor BOX_MASS personMass = spec_responseSpeed personMass"
  using assms
  by (simp add: joint_frame_drive spec_massInertiaFactor_def spec_responseSpeed_def
      BOX_MASS_def GRAVITY_ALIGNMENT_SPEED_def Let_def)

theorem drive_update_formula_witness:
  "(0::real) < 20 \<and> 0 < BOX_MASS + 70
   \<and> UniversalJointAssembly_frame 20 True Space 70 (1/60) initial_joint =
       \<lparr> jointAngles_x = 0,
         jointAngles_z = (pi / 2 * (1.5 / sqrt ((50 + 70) / 50)) * (1/60)) * 0.88 * (1/60),
         angularVelocities_x = 0,
         angularVelocities_z = (pi / 2 * (1.5 / sqrt ((50 + 70) / 50)) * (1/60)) * 0.88,
         universalJoint_rotation_x = 0,
         universalJoint_rotation_z = (pi / 2 * (1.5 / sqrt ((50 + 70) / 50)) * (1/60)) * 0.88 * (1/60) \<rparr>"
proof -
  have h: "(0::real) < 20" "0 < BOX_MASS + 70" by (simp_all add: BOX_MASS_def)
  from drive_update_formula [OF h, of Space "1/60" initial_joint] h show ?thesis
    by (simp add: spec_massInertiaFactor_def spec_responseSpeed_def spec_drive_velocity_def
        spec_drive_angle_def clampedTargetZ_def initial_joint_def BOX_MASS_def Let_def)
qed

text \<open>
  C5 (joint targets). The Z target of a driving frame is \<open>pi / 2\<close> in \<open>Space\<close> and, in a
  gravity environment, \<open>arctan (centrifugalAccel / gravity)\<close> clamped to \<open>[0, pi / 2]\<close>
  with \<open>centrifugalAccel = (rpm * 2 * pi / 60)\<^sup>2 * 4\<close>; the X target is 0. The code only
  takes the minimum with \<open>pi / 2\<close>; the lower clamp at 0 changes nothing because the
  arctangent of a non-negative quotient is non-negative.
\<close>

theorem joint_target_angles:
  "clampedTargetZ planet rpm = spec_targetZ planet rpm \<and> targetAngleX = 0"
proof (cases "planet = Space")
  case True
  then show ?thesis
    by (simp add: clampedTargetZ_def spec_targetZ_def targetAngleX_def)
next
  case False
  let ?q = "spec_centrifugalAccel rpm / PLANET_DATA_gravity planet"
  have ca: "(rpm * 2 * pi) / 60 * ((rpm * 2 * pi) / 60) * ARM_LENGTH = spec_centrifugalAccel rpm"
    by (simp add: spec_centrifugalAccel_def ARM_LENGTH_def power2_eq_square)
  have "0 \<le> spec_centrifugalAccel rpm"
    by (simp add: spec_centrifugalAccel_def)
  with gravity_pos [OF False] have "0 \<le> ?q" by simp
  then have lo: "0 \<le> arctan ?q" by (simp add: zero_le_arctan_iff)
  have hi: "arctan ?q < pi / 2" by (rule arctan_ubound)
  from False lo hi ca show ?thesis
    by (simp add: clampedTargetZ_def spec_targetZ_def spec_clamp_def targetAngleX_def Let_def)
qed

text \<open>
  C6 (arm lag while driving). With \<open>isRotating\<close> true and \<open>rpm > 0\<close> the new lag angle is
  \<open>lag + (target - lag) * 2.0 * dt\<close>, where the target is
  \<open>arctan (centrifugalAccel / 10) * 0.8 * 0.3\<close> in \<open>Space\<close> and
  \<open>arctan (centrifugalAccel / gravity) * 0.8\<close> otherwise, limited to at most \<open>pi / 6\<close>;
  the arm is rotated by the negated new lag.
\<close>

theorem arm_lag_update_formula:
  assumes "0 < rpm"
  shows "ConnectingArmToBox_frame rpm True planet delta s =
     \<lparr> inertialLagAngle = spec_lag_update (spec_lagTarget planet rpm) delta (inertialLagAngle s),
       arm_rotation_x = - spec_lag_update (spec_lagTarget planet rpm) delta (inertialLagAngle s) \<rparr>"
  using assms
  by (simp add: ConnectingArmToBox_frame_def spec_lag_update_def spec_lagTarget_def
      spec_centrifugalAccel_def ARM_LENGTH_def power2_eq_square
      CENTRIFUGAL_BULGE_FACTOR_def Let_def min.commute)

theorem arm_lag_update_formula_witness:
  "(0::real) < 20
   \<and> ConnectingArmToBox_frame 20 True Space (1/60) initial_arm =
       \<lparr> inertialLagAngle = spec_lagTarget Space 20 * 2.0 * (1/60),
         arm_rotation_x = - (spec_lagTarget Space 20 * 2.0 * (1/60)) \<rparr>"
proof -
  have h: "(0::real) < 20" by simp
  from arm_lag_update_formula [OF h, of Space "1/60" initial_arm] h show ?thesis
    by (simp add: spec_lag_update_def initial_arm_def)
qed



text \<open>
  C7 (zero-spin baseline), evaluated in double arithmetic on Earth with an occupant mass
  of 55 kg, \<open>rpm = 0\<close> and the simulation stopped. The gravity of the environment is the
  double nearest to 9.81, \<open>5522539043063071 / 2 ^ 49\<close>. The first implementation does not
  report it: it multiplies by the total mass of 105 kg, rounds, divides by the same mass
  and rounds again, and reports \<open>5522539043063070 / 2 ^ 49\<close> (printed
  9.809999999999999), one unit in the last place below. The centrifugal acceleration is 0
  and no divisor is zero. The second implementation takes the square root of the sum of
  squares and reports the gravity exactly. (In exact arithmetic the first implementation
  agrees too; see \<open>zero_spin_exact_arithmetic\<close>.)
\<close>

theorem zero_spin_gravity_last_bit:
  "binary64 (PLANET_DATA_gravity Earth) = 5522539043063071 / 2 ^ 49
   \<and> map_option r_totalGravity (App_physics binary64 0 False Earth 55)
       = Some (5522539043063070 / 2 ^ 49)
   \<and> map_option r_centrifugalAcceleration (App_physics binary64 0 False Earth 55) = Some 0
   \<and> map_option r2_totalGravity (App2_physics binary64 0 Earth)
       = Some (5522539043063071 / 2 ^ 49)"
proof -
  obtain q where r: "App_physics binary64 0 False Earth 55 =
     Some \<lparr> r_centrifugalAcceleration = 0,
            r_totalGravity = 5522539043063070 / 2 ^ 49,
            r_artificialGravityRatio = q,
            r_idealAngle = 0, r_gravityAngle = 0, r_inertialLagAngle = 0 \<rparr>"
    using App_physics_at_rest_55 by blast
  have g: "binary64 (PLANET_DATA_gravity Earth) = 5522539043063071 / 2 ^ 49"
    using binary64_earth by simp
  show ?thesis
    unfolding r g App2_physics_at_rest by simp
qed





text \<open>
  C10 (zero spin while active). The three solvers branch on \<open>isRotating \<and> rpm > 0\<close> and
  their other branch does not read \<open>isRotating\<close>: with \<open>rpm = 0\<close>, a frame taken with
  \<open>isRotating = True\<close> gives the same joint, arm and habitat state as a frame taken with
  \<open>isRotating = False\<close>, for every state, environment and other input.
\<close>

theorem zero_spin_same_as_stopped:
  "UniversalJointAssembly_frame 0 True planet personMass delta js
     = UniversalJointAssembly_frame 0 False planet personMass delta js
   \<and> ConnectingArmToBox_frame 0 True planet delta as
     = ConnectingArmToBox_frame 0 False planet delta as
   \<and> BoxHabitat_frame 0 True planet personMass rotationLocked bt boxSize delta elapsedTime hs
     = BoxHabitat_frame 0 False planet personMass rotationLocked bt boxSize delta elapsedTime hs
   \<and> module_frame (t \<lparr> t_rpm := 0, t_isRotating := True \<rparr>) m
     = module_frame (t \<lparr> t_rpm := 0, t_isRotating := False \<rparr>) m"
  by (simp add: UniversalJointAssembly_frame_def ConnectingArmToBox_frame_def
      BoxHabitat_frame_def module_frame_def joint_tick_def arm_tick_def habitat_tick_def)

end
